theory Spec2Isabelle
  imports Main "HOL-Library.Word" "HOL-Library.Monad_Syntax"
begin

section \<open>Container lifecycle state cache (pkg/sensor/container.go)\<close>

subsection \<open>Data model\<close>

text \<open>
  \<open>ContainerState\<close> and \<open>ContainerRuntime\<close> are Go \<open>uint\<close> types whose named values are
  given by \<open>iota\<close>. The code only stores and compares them, so they are natural numbers
  here; values other than the named constants are representable, as in Go.
\<close>

type_synonym ContainerState = nat

definition ContainerStateUnknown :: ContainerState where "ContainerStateUnknown = 0"
definition ContainerStateCreated :: ContainerState where "ContainerStateCreated = 1"
definition ContainerStatePaused :: ContainerState where "ContainerStatePaused = 2"
definition ContainerStateRunning :: ContainerState where "ContainerStateRunning = 3"
definition ContainerStateRestarting :: ContainerState where "ContainerStateRestarting = 4"
definition ContainerStateExited :: ContainerState where "ContainerStateExited = 5"
definition ContainerStateRemoving :: ContainerState where "ContainerStateRemoving = 6"

lemmas ContainerState_defs =
  ContainerStateUnknown_def ContainerStateCreated_def ContainerStatePaused_def
  ContainerStateRunning_def ContainerStateRestarting_def ContainerStateExited_def
  ContainerStateRemoving_def

type_synonym ContainerRuntime = nat

definition ContainerRuntimeUnknown :: ContainerRuntime where "ContainerRuntimeUnknown = 0"
definition ContainerRuntimeDocker :: ContainerRuntime where "ContainerRuntimeDocker = 1"

text \<open>
  The exported fields of \<open>ContainerInfo\<close>. The unexported back pointer \<open>cache\<close> is not a
  field of the record: \<open>Update\<close> skips it (its name is not upper case) and the events it
  sends through the back pointer are returned by the model instead.
\<close>

record ContainerInfo =
  ID :: string
  Name :: string
  ImageID :: string
  ImageName :: string
  Pid :: int
  ExitCode :: int
  Runtime :: ContainerRuntime
  State :: ContainerState
  JSONConfig :: string
  OCIConfig :: string

text \<open>
  The five external events the cache registers with the event monitor, named after the
  field of \<open>containerCache\<close> that holds the registered id.
\<close>

datatype cache_event_id =
  containerCreatedEventID
  | containerRunningEventID
  | containerExitedEventID
  | containerDestroyedEventID
  | containerUpdatedEventID

text \<open>
  \<open>enqueueContainerEvent\<close> builds the sample's field map from the entry at the moment of
  the call and hands it to the monitor. The model records the event id, the sample id
  that is passed through, and the entry the field map is computed from.
\<close>

record 'sid external_sample =
  sample_event :: cache_event_id
  sample_id :: 'sid
  sample_info :: ContainerInfo

definition enqueueContainerEvent ::
  "cache_event_id \<Rightarrow> 'sid \<Rightarrow> ContainerInfo \<Rightarrow> 'sid external_sample" where
  "enqueueContainerEvent eventID sampleID info =
     \<lparr>sample_event = eventID, sample_id = sampleID, sample_info = info\<rparr>"

subsection \<open>The cache map\<close>


definition newContainerInfo :: "string \<Rightarrow> ContainerInfo" where
  "newContainerInfo containerID =
     \<lparr>ID = containerID, Name = [], ImageID = [], ImageName = [], Pid = 0, ExitCode = 0,
      Runtime = ContainerRuntimeUnknown, State = 0, JSONConfig = [], OCIConfig = []\<rparr>"



subsection \<open>Update\<close>

text \<open>
  The values of the \<open>map[string]interface{}\<close> passed to \<open>Update\<close>, by dynamic type: the
  four types some field of \<open>ContainerInfo\<close> has, any other type, and the nil interface.
\<close>

datatype gvalue =
  GString string
  | GInt int
  | GRuntime ContainerRuntime
  | GState ContainerState
  | GOther
  | GNil

datatype field =
  F_ID | F_Name | F_ImageID | F_ImageName | F_Pid | F_ExitCode
  | F_Runtime | F_State | F_JSONConfig | F_OCIConfig

fun field_name :: "field \<Rightarrow> string" where
  "field_name F_ID = ''ID''"
| "field_name F_Name = ''Name''"
| "field_name F_ImageID = ''ImageID''"
| "field_name F_ImageName = ''ImageName''"
| "field_name F_Pid = ''Pid''"
| "field_name F_ExitCode = ''ExitCode''"
| "field_name F_Runtime = ''Runtime''"
| "field_name F_State = ''State''"
| "field_name F_JSONConfig = ''JSONConfig''"
| "field_name F_OCIConfig = ''OCIConfig''"

text \<open>\<open>s.Field(i).Interface()\<close>: the current value of a field as an interface value.\<close>

fun field_get :: "field \<Rightarrow> ContainerInfo \<Rightarrow> gvalue" where
  "field_get F_ID info = GString (ID info)"
| "field_get F_Name info = GString (Name info)"
| "field_get F_ImageID info = GString (ImageID info)"
| "field_get F_ImageName info = GString (ImageName info)"
| "field_get F_Pid info = GInt (Pid info)"
| "field_get F_ExitCode info = GInt (ExitCode info)"
| "field_get F_Runtime info = GRuntime (Runtime info)"
| "field_get F_State info = GState (State info)"
| "field_get F_JSONConfig info = GString (JSONConfig info)"
| "field_get F_OCIConfig info = GString (OCIConfig info)"

text \<open>
  \<open>reflect.TypeOf(v).AssignableTo(f.Type)\<close> followed by \<open>s.Field(i).Set\<close>: \<open>None\<close> when
  the value's type is not the field's type.
\<close>

fun field_set :: "field \<Rightarrow> gvalue \<Rightarrow> ContainerInfo \<Rightarrow> ContainerInfo option" where
  "field_set F_ID (GString s) info = Some (info\<lparr>ID := s\<rparr>)"
| "field_set F_Name (GString s) info = Some (info\<lparr>Name := s\<rparr>)"
| "field_set F_ImageID (GString s) info = Some (info\<lparr>ImageID := s\<rparr>)"
| "field_set F_ImageName (GString s) info = Some (info\<lparr>ImageName := s\<rparr>)"
| "field_set F_Pid (GInt n) info = Some (info\<lparr>Pid := n\<rparr>)"
| "field_set F_ExitCode (GInt n) info = Some (info\<lparr>ExitCode := n\<rparr>)"
| "field_set F_Runtime (GRuntime r) info = Some (info\<lparr>Runtime := r\<rparr>)"
| "field_set F_State (GState s) info = Some (info\<lparr>State := s\<rparr>)"
| "field_set F_JSONConfig (GString s) info = Some (info\<lparr>JSONConfig := s\<rparr>)"
| "field_set F_OCIConfig (GString s) info = Some (info\<lparr>OCIConfig := s\<rparr>)"
| "field_set _ _ _ = None"


text \<open>
  The two ways \<open>Update\<close> ends the process instead of returning: \<open>glog.Fatalf\<close> on a value
  of the wrong type, and the nil dereference of \<open>reflect.TypeOf(nil).AssignableTo\<close>.
\<close>

datatype update_error = Fatal | Panic

text \<open>
  The loop runs over the struct's fields from the last to the first; \<open>cache\<close> is skipped.
\<close>

definition update_fields :: "field list" where
  "update_fields =
     [F_OCIConfig, F_JSONConfig, F_State, F_Runtime, F_ExitCode, F_Pid,
      F_ImageName, F_ImageID, F_Name, F_ID]"

fun update_loop ::
  "ContainerRuntime \<Rightarrow> (string \<rightharpoonup> gvalue) \<Rightarrow> field list \<Rightarrow> ContainerInfo \<times> bool
     \<Rightarrow> update_error + ContainerInfo \<times> bool" where
  "update_loop runtime data [] st = Inr st"
| "update_loop runtime data (f # fs) (info, dataChanged) =
     (case data (field_name f) of
        None \<Rightarrow> update_loop runtime data fs (info, dataChanged)
      | Some v \<Rightarrow>
          (case field_set f v info of
             None \<Rightarrow> Inl (if v = GNil then Panic else Fatal)
           | Some info' \<Rightarrow>
               if field_get f info \<noteq> v
               then if f \<noteq> F_State
                    then update_loop runtime data fs (info', True)
                    else if Runtime info \<noteq> runtime
                    then update_loop runtime data fs (info, dataChanged)
                    else update_loop runtime data fs (info', dataChanged)
               else update_loop runtime data fs (info, dataChanged)))"

definition Update ::
  "ContainerRuntime \<Rightarrow> 'sid \<Rightarrow> (string \<rightharpoonup> gvalue) \<Rightarrow> ContainerInfo
     \<Rightarrow> update_error + ContainerInfo \<times> 'sid external_sample list" where
  "Update runtime sampleID data info0 =
     (let info = (if Runtime info0 = ContainerRuntimeUnknown
                  then info0\<lparr>Runtime := runtime\<rparr> else info0);
          oldState = State info
      in case update_loop runtime data update_fields (info, False) of
           Inl e \<Rightarrow> Inl e
         | Inr (info', dataChanged) \<Rightarrow>
             Inr (info',
               if State info' \<noteq> oldState
               then (if oldState < ContainerStateCreated
                     then [enqueueContainerEvent containerCreatedEventID sampleID info']
                     else [])
                  @ (if oldState < ContainerStateRunning
                        \<and> ContainerStateRunning \<le> State info'
                     then [enqueueContainerEvent containerRunningEventID sampleID info']
                     else [])
                  @ (if oldState < ContainerStateRestarting
                        \<and> ContainerStateRestarting \<le> State info'
                     then [enqueueContainerEvent containerExitedEventID sampleID info']
                     else [])
               else if dataChanged
               then [enqueueContainerEvent containerUpdatedEventID sampleID info']
               else []))"


text \<open>How many samples of one event id a call has enqueued.\<close>

definition emitted :: "cache_event_id \<Rightarrow> 'sid external_sample list \<Rightarrow> nat" where
  "emitted eventID evs = length (filter (\<lambda>ev. sample_event ev = eventID) evs)"

text \<open>
  An entry owned by Docker and running, as left by
  \<open>Update(ContainerRuntimeDocker, {State: running})\<close> on a fresh entry.
\<close>

definition docker_entry :: ContainerInfo where
  "docker_entry =
     (newContainerInfo ''c1'')\<lparr>Runtime := ContainerRuntimeDocker, State := ContainerStateRunning\<rparr>"


section \<open>Filter expressions (api.Expression and package expression)\<close>

text \<open>
  Modelled from the spec: the declaration of \<open>api.Expression\<close> is not among the sources.
  The node types are those the spec lists (identifier and literal leaves; AND, OR, EQ, NE,
  LT, LE, GT, GE, LIKE and BITWISE-AND binary nodes), with the zero value every
  protobuf enumeration has. A node is a type tag and a oneof, as the getters
  \<open>GetType\<close>, \<open>GetIdentifier\<close> and \<open>GetBinaryOp\<close> used by the code read it, and the tag
  and the oneof are independent of each other, as in any protobuf message.
\<close>

datatype ExprType =
  Expression_UNKNOWN
  | Expression_IDENTIFIER
  | Expression_VALUE
  | Expression_LOGICAL_AND
  | Expression_LOGICAL_OR
  | Expression_EQ
  | Expression_NE
  | Expression_LT
  | Expression_LE
  | Expression_GT
  | Expression_GE
  | Expression_LIKE
  | Expression_BITWISE_AND

datatype literal =
  L_String string
  | L_Int8 "8 word" | L_Int16 "16 word" | L_Int32 "32 word" | L_Int64 "64 word"
  | L_UInt8 "8 word" | L_UInt16 "16 word" | L_UInt32 "32 word" | L_UInt64 "64 word"
  | L_Bool bool

text \<open>
  A value of type \<open>*api.Expression\<close>: the nil pointer, or a node. \<open>Expr_None\<close> is a node
  whose oneof is unset (or holds a nil \<open>*BinaryOp\<close>): \<open>GetBinaryOp\<close> returns nil for it.
\<close>

datatype Expression =
  ExprNil
  | ExprNode ExprType Expression_Expr
and Expression_Expr =
  Expr_None
  | Expr_Identifier string
  | Expr_Value literal
  | Expr_BinaryOp Expression Expression



text \<open>
  Modelled from the spec: the constructors of package \<open>expression\<close> are not among the
  sources. The spec (4.1): a derived expression is built from two expressions, "where one
  side may be absent, in which case the result is simply the present side".
\<close>

definition Identifier :: "string \<Rightarrow> Expression" where
  "Identifier name = ExprNode Expression_IDENTIFIER (Expr_Identifier name)"

definition Value :: "literal \<Rightarrow> Expression" where
  "Value v = ExprNode Expression_VALUE (Expr_Value v)"

definition newBinaryExpr :: "ExprType \<Rightarrow> Expression \<Rightarrow> Expression \<Rightarrow> Expression" where
  "newBinaryExpr t lhs rhs =
     (if lhs = ExprNil then rhs
      else if rhs = ExprNil then lhs
      else ExprNode t (Expr_BinaryOp lhs rhs))"

definition Equal :: "Expression \<Rightarrow> Expression \<Rightarrow> Expression" where
  "Equal lhs rhs = newBinaryExpr Expression_EQ lhs rhs"

definition Like :: "Expression \<Rightarrow> Expression \<Rightarrow> Expression" where
  "Like lhs rhs = newBinaryExpr Expression_LIKE lhs rhs"

definition BitwiseAnd :: "Expression \<Rightarrow> Expression \<Rightarrow> Expression" where
  "BitwiseAnd lhs rhs = newBinaryExpr Expression_BITWISE_AND lhs rhs"

definition LogicalAnd :: "Expression \<Rightarrow> Expression \<Rightarrow> Expression" where
  "LogicalAnd lhs rhs = newBinaryExpr Expression_LOGICAL_AND lhs rhs"

definition LogicalOr :: "Expression \<Rightarrow> Expression \<Rightarrow> Expression" where
  "LogicalOr lhs rhs = newBinaryExpr Expression_LOGICAL_OR lhs rhs"

section \<open>File events (pkg/sensor/file.go)\<close>

type_synonym FileEventType = int

definition FILE_EVENT_TYPE_UNKNOWN :: FileEventType where "FILE_EVENT_TYPE_UNKNOWN = 0"
definition FILE_EVENT_TYPE_OPEN :: FileEventType where "FILE_EVENT_TYPE_OPEN = 1"

text \<open>
  \<open>api.FileEventFilter\<close>, from the fields the code reads: the four deprecated fields are
  pointers to protobuf wrapper values (nil when unset).
\<close>

record FileEventFilter =
  fef_Type :: FileEventType
  Filename :: "string option"
  FilenamePattern :: "string option"
  OpenFlagsMask :: "32 word option"
  CreateModeMask :: "32 word option"
  fef_FilterExpression :: Expression

definition rewriteFileEventFilter :: "FileEventFilter \<Rightarrow> FileEventFilter" where
  "rewriteFileEventFilter fef0 =
     (let fef1 =
            (case Filename fef0 of
               Some name \<Rightarrow>
                 fef0\<lparr>fef_FilterExpression :=
                        LogicalAnd (Equal (Identifier ''filename'') (Value (L_String name)))
                          (fef_FilterExpression fef0),
                      Filename := None, FilenamePattern := None\<rparr>
             | None \<Rightarrow>
                 (case FilenamePattern fef0 of
                    Some pat \<Rightarrow>
                      fef0\<lparr>fef_FilterExpression :=
                             LogicalAnd (Like (Identifier ''filename'') (Value (L_String pat)))
                               (fef_FilterExpression fef0),
                           FilenamePattern := None\<rparr>
                  | None \<Rightarrow> fef0));
          fef2 =
            (case OpenFlagsMask fef1 of
               Some msk \<Rightarrow>
                 fef1\<lparr>fef_FilterExpression :=
                        LogicalAnd (BitwiseAnd (Identifier ''flags'') (Value (L_Int32 msk)))
                          (fef_FilterExpression fef1),
                      OpenFlagsMask := None\<rparr>
             | None \<Rightarrow> fef1)
      in (case CreateModeMask fef2 of
            Some msk \<Rightarrow>
              fef2\<lparr>fef_FilterExpression :=
                     LogicalAnd (BitwiseAnd (Identifier ''mode'') (Value (L_Int32 msk)))
                       (fef_FilterExpression fef2),
                   CreateModeMask := None\<rparr>
          | None \<Rightarrow> fef2))"

text \<open>
  The test \<open>rewriteFileEventFilter\<close> folds in for each deprecated field, nil when the
  field contributes none.
\<close>

definition filename_test :: "FileEventFilter \<Rightarrow> Expression" where
  "filename_test fef =
     (case Filename fef of
        Some name \<Rightarrow> Equal (Identifier ''filename'') (Value (L_String name))
      | None \<Rightarrow>
          (case FilenamePattern fef of
             Some pat \<Rightarrow> Like (Identifier ''filename'') (Value (L_String pat))
           | None \<Rightarrow> ExprNil))"

definition flags_test :: "FileEventFilter \<Rightarrow> Expression" where
  "flags_test fef =
     (case OpenFlagsMask fef of
        Some msk \<Rightarrow> BitwiseAnd (Identifier ''flags'') (Value (L_Int32 msk))
      | None \<Rightarrow> ExprNil)"

definition mode_test :: "FileEventFilter \<Rightarrow> Expression" where
  "mode_test fef =
     (case CreateModeMask fef of
        Some msk \<Rightarrow> BitwiseAnd (Identifier ''mode'') (Value (L_Int32 msk))
      | None \<Rightarrow> ExprNil)"

section \<open>Syscall events (pkg/sensor/syscall.go)\<close>


text \<open>
  The check as the claim words it, by node shape: an EQ node whose left operand is the
  identifier \<open>id\<close>; an AND node one of whose operands constrains the id; an OR node both
  of whose operands do; nothing else.
\<close>

fun constrains_id :: "Expression \<Rightarrow> bool" where
  "constrains_id (ExprNode Expression_EQ (Expr_BinaryOp lhs rhs)) =
     (lhs = ExprNode Expression_IDENTIFIER (Expr_Identifier ''id''))"
| "constrains_id (ExprNode Expression_LOGICAL_AND (Expr_BinaryOp lhs rhs)) =
     (constrains_id lhs \<or> constrains_id rhs)"
| "constrains_id (ExprNode Expression_LOGICAL_OR (Expr_BinaryOp lhs rhs)) =
     (constrains_id lhs \<and> constrains_id rhs)"
| "constrains_id _ = False"



subsection \<open>Deprecated fields\<close>

type_synonym SyscallEventType = int

definition SYSCALL_EVENT_TYPE_UNKNOWN :: SyscallEventType where "SYSCALL_EVENT_TYPE_UNKNOWN = 0"
definition SYSCALL_EVENT_TYPE_ENTER :: SyscallEventType where "SYSCALL_EVENT_TYPE_ENTER = 1"
definition SYSCALL_EVENT_TYPE_EXIT :: SyscallEventType where "SYSCALL_EVENT_TYPE_EXIT = 2"

text \<open>
  \<open>api.SyscallEventFilter\<close>, from the fields the code reads: \<open>Id\<close> and \<open>Ret\<close> wrap an
  int64, the arguments a uint64; each is nil when unset.
\<close>

record SyscallEventFilter =
  sef_Type :: SyscallEventType
  sef_Id :: "64 word option"
  sef_Arg0 :: "64 word option"
  sef_Arg1 :: "64 word option"
  sef_Arg2 :: "64 word option"
  sef_Arg3 :: "64 word option"
  sef_Arg4 :: "64 word option"
  sef_Arg5 :: "64 word option"
  sef_Ret :: "64 word option"
  sef_FilterExpression :: Expression

text \<open>
  The step \<open>rewriteSyscallEventFilter\<close> repeats for each deprecated field that is set:
  \<open>LogicalAnd(Equal(Identifier(name), Value(v)), sef.FilterExpression)\<close>.
\<close>

definition and_equal :: "string \<Rightarrow> literal \<Rightarrow> Expression \<Rightarrow> Expression" where
  "and_equal name v expr = LogicalAnd (Equal (Identifier name) (Value v)) expr"

definition rewriteSyscallEventFilter :: "SyscallEventFilter \<Rightarrow> SyscallEventFilter" where
  "rewriteSyscallEventFilter sef0 =
     (let sef1 =
            (case sef_Id sef0 of
               Some v \<Rightarrow>
                 sef0\<lparr>sef_FilterExpression :=
                        and_equal ''id'' (L_Int64 v) (sef_FilterExpression sef0),
                      sef_Id := None\<rparr>
             | None \<Rightarrow> sef0)
      in if sef_Type sef1 = SYSCALL_EVENT_TYPE_ENTER
         then
           (let a0 = (case sef_Arg0 sef1 of
                        Some v \<Rightarrow>
                          sef1\<lparr>sef_FilterExpression :=
                                 and_equal ''arg0'' (L_UInt64 v) (sef_FilterExpression sef1),
                               sef_Arg0 := None\<rparr>
                      | None \<Rightarrow> sef1);
                a1 = (case sef_Arg1 a0 of
                        Some v \<Rightarrow>
                          a0\<lparr>sef_FilterExpression :=
                               and_equal ''arg1'' (L_UInt64 v) (sef_FilterExpression a0),
                             sef_Arg1 := None\<rparr>
                      | None \<Rightarrow> a0);
                a2 = (case sef_Arg2 a1 of
                        Some v \<Rightarrow>
                          a1\<lparr>sef_FilterExpression :=
                               and_equal ''arg2'' (L_UInt64 v) (sef_FilterExpression a1),
                             sef_Arg2 := None\<rparr>
                      | None \<Rightarrow> a1);
                a3 = (case sef_Arg3 a2 of
                        Some v \<Rightarrow>
                          a2\<lparr>sef_FilterExpression :=
                               and_equal ''arg3'' (L_UInt64 v) (sef_FilterExpression a2),
                             sef_Arg3 := None\<rparr>
                      | None \<Rightarrow> a2);
                a4 = (case sef_Arg4 a3 of
                        Some v \<Rightarrow>
                          a3\<lparr>sef_FilterExpression :=
                               and_equal ''arg4'' (L_UInt64 v) (sef_FilterExpression a3),
                             sef_Arg4 := None\<rparr>
                      | None \<Rightarrow> a3)
            in (case sef_Arg5 a4 of
                  Some v \<Rightarrow>
                    a4\<lparr>sef_FilterExpression :=
                         and_equal ''arg5'' (L_UInt64 v) (sef_FilterExpression a4),
                       sef_Arg5 := None\<rparr>
                | None \<Rightarrow> a4))
         else if sef_Type sef1 = SYSCALL_EVENT_TYPE_EXIT
         then
           (case sef_Ret sef1 of
              Some v \<Rightarrow>
                sef1\<lparr>sef_FilterExpression :=
                       and_equal ''ret'' (L_Int64 v) (sef_FilterExpression sef1),
                     sef_Ret := None\<rparr>
            | None \<Rightarrow> sef1)
         else sef1)"

section \<open>Collaborators of the registration functions\<close>

text \<open>
  The event monitor (package perf) is an external collaborator. The model keeps the
  trace of the calls made to it, each with its result (the event id, or \<open>None\<close> for an
  error), oldest first; how the monitor answers a call after a given trace is a
  parameter.
\<close>

text \<open>
  The decoder a registration passes to the monitor: \<open>Dec_f\<close> stands for the method
  value \<open>f\<close> of the Go code.
\<close>

datatype decoder =
  Dec_decodeDummySysEnter | Dec_decodeSyscallTraceEnter | Dec_decodeSysExit | Dec_decodeDoSysOpen

datatype monitor_call =
  RegisterTracepoint string decoder "32 word" string
  | RegisterKprobe string bool string decoder "32 word" string
  | UnregisterEvent "64 word"

type_synonym monitor_trace = "(monitor_call \<times> 64 word option) list"

type_synonym monitor = "monitor_trace \<Rightarrow> monitor_call \<Rightarrow> 64 word option"

definition call_monitor ::
  "monitor \<Rightarrow> monitor_call \<Rightarrow> monitor_trace \<Rightarrow> 64 word option \<times> monitor_trace" where
  "call_monitor mon c tr = (let r = mon tr c in (r, tr @ [(c, r)]))"

text \<open>
  What the registration functions use from outside their file: the three steps of package
  \<open>expression\<close> that turn a filter expression into a kernel filter string
  (\<open>NewExpression\<close> and \<open>ValidateKernelFilter\<close> succeed or fail, \<open>KernelFilterString\<close>
  renders), the order in which a \<open>range\<close> loop visits the keys of a Go map, the major
  version \<open>sys.KernelVersion\<close> reports, and the monitor.
\<close>

record collaborators =
  NewExpression :: "Expression \<Rightarrow> bool"
  ValidateKernelFilter :: "Expression \<Rightarrow> bool"
  KernelFilterString :: "Expression \<Rightarrow> string"
  range_order :: "string list \<Rightarrow> string list"
  KernelVersion_major :: int
  the_monitor :: monitor

text \<open>
  Modelled from the spec: the subscription map and its \<open>subscribe\<close> are not among the
  sources. The spec (3): a subscription binds a kernel event id to an optional filter and
  an optional teardown callback. \<open>subscribe\<close> returns the subscription of an event id,
  creating it when there is none. The only callback the code installs is the closure of
  \<open>registerSyscallEvents\<close>.
\<close>

datatype unregister_fn = dummy_sys_enter_unregister

record subscription =
  sub_eventID :: "64 word"
  sub_filter :: "Expression option"
  unregister :: "unregister_fn option"

type_synonym subscriptionMap = "64 word \<rightharpoonup> subscription"

definition subscribe :: "64 word \<Rightarrow> subscriptionMap \<Rightarrow> subscriptionMap" where
  "subscribe eventID eventMap =
     (case eventMap eventID of
        Some s \<Rightarrow> eventMap
      | None \<Rightarrow>
          eventMap(eventID \<mapsto> \<lparr>sub_eventID = eventID, sub_filter = None, unregister = None\<rparr>))"


text \<open>
  The state the registration functions change: the sensor's counter and id of the dummy
  syscall event, the monitor's trace, and the caller's subscription map.
\<close>

record reg_state =
  dummySyscallEventCount :: "64 word"
  dummySyscallEventID :: "64 word"
  trace :: monitor_trace
  eventMap :: subscriptionMap

text \<open>\<open>strings.Join\<close>, and the \<open>range\<close> loop that parenthesizes every key of a filter set.\<close>

fun Join :: "string list \<Rightarrow> string \<Rightarrow> string" where
  "Join [] sep = []"
| "Join [a] sep = a"
| "Join (a # b # rest) sep = a @ sep @ Join (b # rest) sep"

definition join_filters :: "(string list \<Rightarrow> string list) \<Rightarrow> string list \<Rightarrow> string" where
  "join_filters order filters =
     Join (map (\<lambda>k. ''('' @ k @ '')'') (order filters)) '' || ''"


section \<open>Registration of syscall events (registerSyscallEvents)\<close>





definition dummy_sys_enter :: "32 word \<Rightarrow> monitor_call" where
  "dummy_sys_enter groupID =
     RegisterTracepoint ''raw_syscalls/sys_enter'' Dec_decodeDummySysEnter groupID
       ''id == 0x7fffffff''"

text \<open>
  The dummy tracepoint: on a kernel older than 3.x one registration per call, in the
  caller's event group; otherwise the counter is incremented and the tracepoint is
  registered in group 0 when the incremented counter is 1, and a failed registration
  takes the increment back.
\<close>

definition register_dummy ::
  "'a collaborators_scheme \<Rightarrow> 32 word \<Rightarrow> reg_state \<Rightarrow> reg_state" where
  "register_dummy env groupID st =
     (if KernelVersion_major env < 3
      then (let (r, tr) = call_monitor (the_monitor env) (dummy_sys_enter groupID) (trace st)
            in st\<lparr>trace := tr\<rparr>)
      else
        (let n = dummySyscallEventCount st + 1;
             st1 = st\<lparr>dummySyscallEventCount := n\<rparr>
         in if n = 1
            then (let (r, tr) = call_monitor (the_monitor env) (dummy_sys_enter 0) (trace st1)
                  in case r of
                       None \<Rightarrow> st1\<lparr>dummySyscallEventCount := n - 1, trace := tr\<rparr>
                     | Some eventID \<Rightarrow> st1\<lparr>dummySyscallEventID := eventID, trace := tr\<rparr>)
            else st1))"






section \<open>Registration of file events (registerFileEvents)\<close>

definition fsDoSysOpenKprobeAddress :: string where
  "fsDoSysOpenKprobeAddress = ''do_sys_open''"

definition fsDoSysOpenKprobeFetchargs :: string where
  "fsDoSysOpenKprobeFetchargs = ''filename=+0(%si):string flags=%dx:s32 mode=%cx:s32''"

fun file_filter_loop ::
  "'a collaborators_scheme \<Rightarrow> FileEventFilter list \<Rightarrow> bool \<times> string list
     \<Rightarrow> bool \<times> string list" where
  "file_filter_loop env [] acc = acc"
| "file_filter_loop env (fef0 # rest) (wildcard, filters) =
     (if fef_Type fef0 \<noteq> FILE_EVENT_TYPE_OPEN
      then file_filter_loop env rest (wildcard, filters)
      else
        (let fef = rewriteFileEventFilter fef0;
             expr = fef_FilterExpression fef
         in if expr = ExprNil
            then file_filter_loop env rest (True, filters)
            else if \<not> NewExpression env expr
            then file_filter_loop env rest (wildcard, filters)
            else if \<not> ValidateKernelFilter env expr
            then file_filter_loop env rest (wildcard, filters)
            else file_filter_loop env rest
                   (wildcard, List.insert (KernelFilterString env expr) filters)))"

definition registerFileEvents ::
  "'a collaborators_scheme \<Rightarrow> 32 word \<Rightarrow> FileEventFilter list \<Rightarrow> reg_state
     \<Rightarrow> FileEventFilter list \<times> reg_state" where
  "registerFileEvents env groupID events st =
     (let (wildcard, filters) = file_filter_loop env events (False, []);
          events' = map (\<lambda>fef. if fef_Type fef \<noteq> FILE_EVENT_TYPE_OPEN then fef
                               else rewriteFileEventFilter fef) events
      in if \<not> wildcard \<and> length filters = 0 then (events', st)
         else if wildcard \<and> length events = 0 then (events', st)
         else
           (let filterString =
                  (if \<not> wildcard then join_filters (range_order env) filters else []);
                (r, tr) =
                  call_monitor (the_monitor env)
                    (RegisterKprobe fsDoSysOpenKprobeAddress False fsDoSysOpenKprobeFetchargs
                       Dec_decodeDoSysOpen groupID filterString) (trace st)
            in case r of
                 None \<Rightarrow> (events', st\<lparr>trace := tr\<rparr>)
               | Some eventID \<Rightarrow>
                   (events', st\<lparr>trace := tr, eventMap := subscribe eventID (eventMap st)\<rparr>)))"

section \<open>The kernel's reading of a group filter\<close>

text \<open>
  Modelled from the spec: the kernel's filter evaluator is outside the repository. The
  spec (6) gives the grammar: parenthesized boolean combinations joined by \<open>||\<close> as the
  kernel requires; an absent (empty) filter is unconditional. The model reads a filter
  string as far as the registration code builds it: a sequence of parenthesized groups
  separated by \<open>'' || ''\<close> is the disjunction of its groups. What a group's text accepts is
  a parameter; a string of any other shape is read as accepting nothing.
\<close>

datatype scan_mode = AtGroupStart | InGroup nat | AfterGroup

fun scan_groups :: "scan_mode \<Rightarrow> string \<Rightarrow> string \<Rightarrow> string list option" where
  "scan_groups AtGroupStart acc [] = None"
| "scan_groups AtGroupStart acc (c # cs) =
     (if c = CHR ''('' then scan_groups (InGroup 0) [] cs else None)"
| "scan_groups (InGroup d) acc [] = None"
| "scan_groups (InGroup d) acc (c # cs) =
     (if c = CHR ''('' then scan_groups (InGroup (Suc d)) (c # acc) cs
      else if c = CHR '')''
      then (case d of
              0 \<Rightarrow> map_option ((#) (rev acc)) (scan_groups AfterGroup [] cs)
            | Suc d' \<Rightarrow> scan_groups (InGroup d') (c # acc) cs)
      else scan_groups (InGroup d) (c # acc) cs)"
| "scan_groups AfterGroup acc [] = Some []"
| "scan_groups AfterGroup acc (c1 # c2 # c3 # c4 # cs) =
     (if [c1, c2, c3, c4] = '' || '' then scan_groups AtGroupStart [] cs else None)"
| "scan_groups AfterGroup acc _ = None"

definition kernel_accepts :: "(string \<Rightarrow> 'x \<Rightarrow> bool) \<Rightarrow> string \<Rightarrow> 'x \<Rightarrow> bool" where
  "kernel_accepts group_accepts kfilter x =
     (if kfilter = [] then True
      else case scan_groups AtGroupStart [] kfilter of
             None \<Rightarrow> False
           | Some groups \<Rightarrow> list_ex (\<lambda>k. group_accepts k x) groups)"

text \<open>Parentheses balanced: every closing one closes an earlier opening one.\<close>

fun balanced :: "nat \<Rightarrow> string \<Rightarrow> bool" where
  "balanced n [] = (n = 0)"
| "balanced n (c # cs) =
     (if c = CHR ''('' then balanced (Suc n) cs
      else if c = CHR '')'' then 0 < n \<and> balanced (n - 1) cs
      else balanced n cs)"


section \<open>Observing a registration call\<close>


fun is_dummy :: "monitor_call \<Rightarrow> bool" where
  "is_dummy (RegisterTracepoint name dec groupID kfilter) =
     (name = ''raw_syscalls/sys_enter'' \<and> dec = Dec_decodeDummySysEnter)"
| "is_dummy _ = False"

fun is_unregister :: "monitor_call \<Rightarrow> bool" where
  "is_unregister (UnregisterEvent eventID) = True"
| "is_unregister _ = False"

fun is_enter_kprobe :: "monitor_call \<Rightarrow> bool" where
  "is_enter_kprobe (RegisterKprobe address onReturn fetchargs dec groupID kfilter) =
     (dec = Dec_decodeSyscallTraceEnter)"
| "is_enter_kprobe _ = False"

text \<open>The filter expression \<open>registerSyscallEvents\<close> tests: the one left by the rewriting.\<close>

definition rewritten_expr :: "SyscallEventFilter \<Rightarrow> Expression" where
  "rewritten_expr sef = sef_FilterExpression (rewriteSyscallEventFilter sef)"








section \<open>Telemetry events (api.TelemetryEvent)\<close>

text \<open>
  The event types as the sensor code uses them: the fields each decoder sets, the
  container id and the payload oneof that \<open>FilterFunc\<close> reads. The remaining fields of
  the event are those of \<open>Event\<close> in event.pb.go.
\<close>

type_synonym ContainerEventType = int

definition CONTAINER_EVENT_TYPE_UNKNOWN :: ContainerEventType where
  "CONTAINER_EVENT_TYPE_UNKNOWN = 0"
definition CONTAINER_EVENT_TYPE_CREATED :: ContainerEventType where
  "CONTAINER_EVENT_TYPE_CREATED = 1"
definition CONTAINER_EVENT_TYPE_EXITED :: ContainerEventType where
  "CONTAINER_EVENT_TYPE_EXITED = 3"
definition CONTAINER_EVENT_TYPE_DESTROYED :: ContainerEventType where
  "CONTAINER_EVENT_TYPE_DESTROYED = 4"
definition CONTAINER_EVENT_TYPE_UPDATED :: ContainerEventType where
  "CONTAINER_EVENT_TYPE_UPDATED = 5"

record ContainerEvent =
  cev_Type :: ContainerEventType
  cev_Name :: string
  ImageId :: string
  cev_ImageName :: string
  HostPid :: "32 word"
  cev_ExitCode :: "32 word"
  ExitStatus :: "32 word"
  ExitSignal :: "32 word"
  ExitCoreDumped :: bool
  DockerConfigJson :: string
  OciConfigJson :: string

record SyscallEvent =
  se_Type :: SyscallEventType
  se_Id :: "64 word"
  Arg0 :: "64 word"
  Arg1 :: "64 word"
  Arg2 :: "64 word"
  Arg3 :: "64 word"
  Arg4 :: "64 word"
  Arg5 :: "64 word"
  Ret :: "64 word"

record FileEvent =
  fe_Type :: FileEventType
  fe_Filename :: string
  OpenFlags :: "32 word"
  OpenMode :: "32 word"

datatype payload =
  NoPayload
  | TelemetryEvent_Syscall SyscallEvent
  | TelemetryEvent_File FileEvent
  | TelemetryEvent_Container ContainerEvent
  | TelemetryEvent_Other

record TelemetryEvent =
  ev_Id :: string
  ProcessId :: string
  ProcessPid :: "32 word"
  ContainerId :: string
  SensorId :: string
  SensorSequenceNumber :: "64 word"
  SensorMonotimeNanos :: "64 word"
  Event :: payload

section \<open>Container identifier filter (containerFilter)\<close>

text \<open>
  The four Go maps of the filter, each nil (\<open>None\<close>) until its first insertion. The keys
  of \<open>imageGlobs\<close> are the patterns that compiled, each mapped to its compiled glob; the
  model keeps the patterns, and the matching of package glob is a parameter.
\<close>

record containerFilter =
  containerIds :: "(string \<rightharpoonup> bool) option"
  containerNames :: "(string \<rightharpoonup> bool) option"
  imageIds :: "(string \<rightharpoonup> bool) option"
  imageGlobs :: "string list option"


definition map_put :: "(string \<rightharpoonup> bool) option \<Rightarrow> string \<Rightarrow> (string \<rightharpoonup> bool) option" where
  "map_put m k = Some ((case m of None \<Rightarrow> Map.empty | Some f \<Rightarrow> f)(k \<mapsto> True))"


definition removeContainerID :: "string \<Rightarrow> containerFilter \<Rightarrow> containerFilter" where
  "removeContainerID cid c =
     (case containerIds c of
        None \<Rightarrow> c
      | Some f \<Rightarrow> c\<lparr>containerIds := Some (f(cid := None))\<rparr>)"

definition addContainerName :: "string \<Rightarrow> containerFilter \<Rightarrow> containerFilter" where
  "addContainerName cname c =
     (if 0 < length cname then c\<lparr>containerNames := map_put (containerNames c) cname\<rparr> else c)"

definition addImageID :: "string \<Rightarrow> containerFilter \<Rightarrow> containerFilter" where
  "addImageID iid c =
     (if 0 < length iid then c\<lparr>imageIds := map_put (imageIds c) iid\<rparr> else c)"

definition addImageName :: "(string \<Rightarrow> bool) \<Rightarrow> string \<Rightarrow> containerFilter \<Rightarrow> containerFilter" where
  "addImageName glob_compiles iname c =
     (if 0 < length iname
      then (let globs = (case imageGlobs c of None \<Rightarrow> [] | Some gs \<Rightarrow> gs)
            in if imageGlobs c \<noteq> None \<and> iname \<in> set globs then c
               else if glob_compiles iname then c\<lparr>imageGlobs := Some (globs @ [iname])\<rparr>
               else c\<lparr>imageGlobs := Some globs\<rparr>)
      else c)"


definition DoFunc :: "'a TelemetryEvent_scheme \<Rightarrow> containerFilter \<Rightarrow> containerFilter" where
  "DoFunc e c =
     (case Event e of
        TelemetryEvent_Container cev \<Rightarrow>
          if cev_Type cev = CONTAINER_EVENT_TYPE_DESTROYED
          then removeContainerID (ContainerId e) c else c
      | _ \<Rightarrow> c)"







section \<open>Event decoders\<close>

text \<open>
  The values of a sample's field map (\<open>perf.TraceEventSampleData\<close>, a
  \<open>map[string]interface{}\<close>) by dynamic type. A key that is absent reads as the nil
  interface.
\<close>

datatype sample_value =
  SV_String string
  | SV_Int32 "32 word"
  | SV_UInt32 "32 word"
  | SV_Int64 "64 word"
  | SV_UInt64 "64 word"
  | SV_Bool bool
  | SV_Other

type_synonym TraceEventSampleData = "string \<rightharpoonup> sample_value"

text \<open>
  The type assertion \<open>x.(T)\<close> in its one-result form: it panics when the dynamic type of
  \<open>x\<close> is not \<open>T\<close>, the nil interface included. \<open>None\<close> is the panic.
\<close>

fun assert_string :: "sample_value option \<Rightarrow> string option" where
  "assert_string (Some (SV_String s)) = Some s"
| "assert_string _ = None"

fun assert_int32 :: "sample_value option \<Rightarrow> 32 word option" where
  "assert_int32 (Some (SV_Int32 w)) = Some w"
| "assert_int32 _ = None"

fun assert_uint32 :: "sample_value option \<Rightarrow> 32 word option" where
  "assert_uint32 (Some (SV_UInt32 w)) = Some w"
| "assert_uint32 _ = None"

fun assert_int64 :: "sample_value option \<Rightarrow> 64 word option" where
  "assert_int64 (Some (SV_Int64 w)) = Some w"
| "assert_int64 _ = None"

fun assert_uint64 :: "sample_value option \<Rightarrow> 64 word option" where
  "assert_uint64 (Some (SV_UInt64 w)) = Some w"
| "assert_uint64 _ = None"

fun assert_bool :: "sample_value option \<Rightarrow> bool option" where
  "assert_bool (Some (SV_Bool b)) = Some b"
| "assert_bool _ = None"

text \<open>The two-result form \<open>s, ok := x.(string)\<close> followed by \<open>ok && len(s) > 0\<close>.\<close>

fun nonempty_string :: "sample_value option \<Rightarrow> string option" where
  "nonempty_string (Some (SV_String s)) = (if 0 < length s then Some s else None)"
| "nonempty_string _ = None"

text \<open>
  How a decoder call ends: it panics, or it returns its pair of a value and an error
  (\<open>None\<close> for the nil error).
\<close>

datatype 'a go_result = Panicked | Returned 'a "string option"

fun reports_error :: "'a go_result \<Rightarrow> bool" where
  "reports_error (Returned v (Some err)) = True"
| "reports_error _ = False"

definition returned :: "'a option \<Rightarrow> 'a go_result" where
  "returned r = (case r of None \<Rightarrow> Panicked | Some v \<Rightarrow> Returned v None)"

text \<open>
  \<open>Sensor.NewEventFromSample\<close> is not among the sources: the event it builds from the
  sample is a parameter of each decoder.
\<close>

definition decodeSyscallTraceEnter ::
  "('s \<Rightarrow> TraceEventSampleData \<Rightarrow> TelemetryEvent) \<Rightarrow> 's \<Rightarrow> TraceEventSampleData
     \<Rightarrow> TelemetryEvent go_result" where
  "decodeSyscallTraceEnter NewEventFromSample sample data =
     returned (do {
       let ev = NewEventFromSample sample data;
       id \<leftarrow> assert_int64 (data ''id'');
       arg0 \<leftarrow> assert_uint64 (data ''arg0'');
       arg1 \<leftarrow> assert_uint64 (data ''arg1'');
       arg2 \<leftarrow> assert_uint64 (data ''arg2'');
       arg3 \<leftarrow> assert_uint64 (data ''arg3'');
       arg4 \<leftarrow> assert_uint64 (data ''arg4'');
       arg5 \<leftarrow> assert_uint64 (data ''arg5'');
       Some (ev\<lparr>Event := TelemetryEvent_Syscall
               \<lparr>se_Type = SYSCALL_EVENT_TYPE_ENTER, se_Id = id, Arg0 = arg0, Arg1 = arg1,
                Arg2 = arg2, Arg3 = arg3, Arg4 = arg4, Arg5 = arg5, Ret = 0\<rparr>\<rparr>)
     })"

definition decodeSysExit ::
  "('s \<Rightarrow> TraceEventSampleData \<Rightarrow> TelemetryEvent) \<Rightarrow> 's \<Rightarrow> TraceEventSampleData
     \<Rightarrow> TelemetryEvent go_result" where
  "decodeSysExit NewEventFromSample sample data =
     returned (do {
       let ev = NewEventFromSample sample data;
       id \<leftarrow> assert_int64 (data ''id'');
       ret \<leftarrow> assert_int64 (data ''ret'');
       Some (ev\<lparr>Event := TelemetryEvent_Syscall
               \<lparr>se_Type = SYSCALL_EVENT_TYPE_EXIT, se_Id = id, Arg0 = 0, Arg1 = 0,
                Arg2 = 0, Arg3 = 0, Arg4 = 0, Arg5 = 0, Ret = ret\<rparr>\<rparr>)
     })"

definition decodeDoSysOpen ::
  "('s \<Rightarrow> TraceEventSampleData \<Rightarrow> TelemetryEvent) \<Rightarrow> 's \<Rightarrow> TraceEventSampleData
     \<Rightarrow> TelemetryEvent go_result" where
  "decodeDoSysOpen NewEventFromSample sample data =
     returned (do {
       let ev = NewEventFromSample sample data;
       filename \<leftarrow> assert_string (data ''filename'');
       flags \<leftarrow> assert_int32 (data ''flags'');
       mode \<leftarrow> assert_int32 (data ''mode'');
       Some (ev\<lparr>Event := TelemetryEvent_File
               \<lparr>fe_Type = FILE_EVENT_TYPE_OPEN, fe_Filename = filename, OpenFlags = flags,
                OpenMode = mode\<rparr>\<rparr>)
     })"

definition newContainerEvent ::
  "('s \<Rightarrow> TraceEventSampleData \<Rightarrow> TelemetryEvent) \<Rightarrow> 's \<Rightarrow> TraceEventSampleData
     \<Rightarrow> ContainerEventType \<Rightarrow> TelemetryEvent go_result" where
  "newContainerEvent NewEventFromSample sample data eventType =
     returned (do {
       image_id \<leftarrow> assert_string (data ''image_id'');
       image_name \<leftarrow> assert_string (data ''image_name'');
       host_pid \<leftarrow> assert_int32 (data ''host_pid'');
       exit_code \<leftarrow> assert_int32 (data ''exit_code'');
       exit_status \<leftarrow> assert_uint32 (data ''exit_status'');
       exit_signal \<leftarrow> assert_uint32 (data ''exit_signal'');
       exit_core_dumped \<leftarrow> assert_bool (data ''exit_core_dumped'');
       let cev = \<lparr>cev_Type = eventType, cev_Name = [], ImageId = image_id,
                  cev_ImageName = image_name, HostPid = host_pid, cev_ExitCode = exit_code,
                  ExitStatus = exit_status, ExitSignal = exit_signal,
                  ExitCoreDumped = exit_core_dumped,
                  DockerConfigJson =
                    (case nonempty_string (data ''docker_config'') of
                       Some s \<Rightarrow> s | None \<Rightarrow> []),
                  OciConfigJson =
                    (case nonempty_string (data ''oci_config'') of
                       Some s \<Rightarrow> s | None \<Rightarrow> [])\<rparr>;
       let event = NewEventFromSample sample data;
       container_id \<leftarrow> assert_string (data ''container_id'');
       Some (event\<lparr>ContainerId := container_id, Event := TelemetryEvent_Container cev\<rparr>)
     })"

text \<open>
  The fields a decoder expects, with their types, and whether a sample has them all.
\<close>

datatype sample_kind = K_String | K_Int32 | K_UInt32 | K_Int64 | K_UInt64 | K_Bool

fun has_kind :: "sample_kind \<Rightarrow> sample_value option \<Rightarrow> bool" where
  "has_kind K_String (Some (SV_String s)) = True"
| "has_kind K_Int32 (Some (SV_Int32 w)) = True"
| "has_kind K_UInt32 (Some (SV_UInt32 w)) = True"
| "has_kind K_Int64 (Some (SV_Int64 w)) = True"
| "has_kind K_UInt64 (Some (SV_UInt64 w)) = True"
| "has_kind K_Bool (Some (SV_Bool b)) = True"
| "has_kind _ _ = False"

definition schema_ok :: "(string \<times> sample_kind) list \<Rightarrow> TraceEventSampleData \<Rightarrow> bool" where
  "schema_ok schema data = list_all (\<lambda>(name, k). has_kind k (data name)) schema"

definition syscall_enter_schema :: "(string \<times> sample_kind) list" where
  "syscall_enter_schema =
     [(''id'', K_Int64), (''arg0'', K_UInt64), (''arg1'', K_UInt64), (''arg2'', K_UInt64),
      (''arg3'', K_UInt64), (''arg4'', K_UInt64), (''arg5'', K_UInt64)]"

definition sys_exit_schema :: "(string \<times> sample_kind) list" where
  "sys_exit_schema = [(''id'', K_Int64), (''ret'', K_Int64)]"

definition do_sys_open_schema :: "(string \<times> sample_kind) list" where
  "do_sys_open_schema = [(''filename'', K_String), (''flags'', K_Int32), (''mode'', K_Int32)]"

definition container_schema :: "(string \<times> sample_kind) list" where
  "container_schema =
     [(''image_id'', K_String), (''image_name'', K_String), (''host_pid'', K_Int32),
      (''exit_code'', K_Int32), (''exit_status'', K_UInt32), (''exit_signal'', K_UInt32),
      (''exit_core_dumped'', K_Bool), (''container_id'', K_String)]"

text \<open>Examples: an event builder, and a sys_exit sample without its \<open>ret\<close> field.\<close>

definition blank_event :: "unit \<Rightarrow> TraceEventSampleData \<Rightarrow> TelemetryEvent" where
  "blank_event sample data =
     \<lparr>ev_Id = [], ProcessId = [], ProcessPid = 0, ContainerId = [], SensorId = [],
      SensorSequenceNumber = 0, SensorMonotimeNanos = 0, Event = NoPayload\<rparr>"

definition exit_sample_without_ret :: TraceEventSampleData where
  "exit_sample_without_ret = [''id'' \<mapsto> SV_Int64 1]"

definition exit_sample :: TraceEventSampleData where
  "exit_sample = [''id'' \<mapsto> SV_Int64 1, ''ret'' \<mapsto> SV_Int64 0]"


section \<open>The requesters of a sub-type, as the spec speaks of them\<close>

text \<open>
  The spec's subscription merge is about the filters \<open>F1..Fn\<close> requested for one
  sub-type. For file events a requester is a filter of type OPEN and its filter is the
  expression the rewriting leaves; for syscall events the requesters of the enter (exit)
  sub-type are the filters of that type. A requester's filter compiles when
  \<open>NewExpression\<close> and \<open>ValidateKernelFilter\<close> both succeed on it.
\<close>

definition compiles :: "'a collaborators_scheme \<Rightarrow> Expression \<Rightarrow> bool" where
  "compiles env expr = (NewExpression env expr \<and> ValidateKernelFilter env expr)"

definition file_requests :: "FileEventFilter list \<Rightarrow> Expression list" where
  "file_requests events =
     map (\<lambda>fef. fef_FilterExpression (rewriteFileEventFilter fef))
       (filter (\<lambda>fef. fef_Type fef = FILE_EVENT_TYPE_OPEN) events)"

definition file_wildcard :: "FileEventFilter list \<Rightarrow> bool" where
  "file_wildcard events = (ExprNil \<in> set (file_requests events))"

definition file_compiled :: "'a collaborators_scheme \<Rightarrow> FileEventFilter list \<Rightarrow> string list" where
  "file_compiled env events =
     map (KernelFilterString env)
       (filter (\<lambda>expr. expr \<noteq> ExprNil \<and> compiles env expr) (file_requests events))"

definition syscall_requests :: "SyscallEventType \<Rightarrow> SyscallEventFilter list \<Rightarrow> Expression list" where
  "syscall_requests t events = map rewritten_expr (filter (\<lambda>sef. sef_Type sef = t) events)"

definition syscall_compiled ::
  "'a collaborators_scheme \<Rightarrow> SyscallEventType \<Rightarrow> SyscallEventFilter list \<Rightarrow> string list" where
  "syscall_compiled env t events =
     map (KernelFilterString env)
       (filter (\<lambda>expr. constrains_id expr \<and> compiles env expr) (syscall_requests t events))"

text \<open>The kernel filter a registration call passes with \<open>perf.WithFilter\<close>.\<close>

fun call_filter :: "monitor_call \<Rightarrow> string option" where
  "call_filter (RegisterTracepoint name dec groupID kfilter) = Some kfilter"
| "call_filter (RegisterKprobe address onReturn fetchargs dec groupID kfilter) = Some kfilter"
| "call_filter (UnregisterEvent eventID) = None"

fun is_exit_tracepoint :: "monitor_call \<Rightarrow> bool" where
  "is_exit_tracepoint (RegisterTracepoint name dec groupID kfilter) = (dec = Dec_decodeSysExit)"
| "is_exit_tracepoint _ = False"

text \<open>Examples: a reading of group texts that accepts no sample.\<close>

definition rejects_all :: "string \<Rightarrow> unit \<Rightarrow> bool" where
  "rejects_all k x = False"

definition open_filter :: "Expression \<Rightarrow> FileEventFilter" where
  "open_filter expr =
     \<lparr>fef_Type = FILE_EVENT_TYPE_OPEN, Filename = None, FilenamePattern = None,
      OpenFlagsMask = None, CreateModeMask = None, fef_FilterExpression = expr\<rparr>"

(*DEFS-END*)

section \<open>Verification: container cache\<close>

subsection \<open>Field access\<close>






subsection \<open>The field loop\<close>






subsection \<open>Lifecycle events\<close>



text \<open>
  C2. For an \<open>Update\<close> call that returns with the state changed, exactly one EXITED sample
  is enqueued when the previous state was below restarting and the new state is at or
  above restarting, and none otherwise. So a jump from below restarting straight to
  removing enqueues EXITED, and an update that lands on paused enqueues neither RUNNING
  nor EXITED.
\<close>

theorem Update_exited_threshold:
  assumes run: "Update runtime sid data info = Inr (info', evs)"
  shows "(State info' \<noteq> State info \<longrightarrow>
            emitted containerExitedEventID evs =
              (if State info < ContainerStateRestarting \<and> ContainerStateRestarting \<le> State info'
               then 1 else 0))
       \<and> (State info < ContainerStateRestarting \<and> State info' = ContainerStateRemoving \<longrightarrow>
            emitted containerExitedEventID evs = 1)
       \<and> (State info' = ContainerStatePaused \<longrightarrow>
            emitted containerRunningEventID evs = 0 \<and> emitted containerExitedEventID evs = 0)"
  using run
  by (auto simp: Update_def Let_def emitted_def enqueueContainerEvent_def ContainerState_defs
           split: sum.splits if_splits)

theorem Update_exited_threshold_witness:
  "Update ContainerRuntimeDocker (0::nat) [''State'' \<mapsto> GState ContainerStateRemoving]
       docker_entry =
     Inr (docker_entry\<lparr>State := ContainerStateRemoving\<rparr>,
          [enqueueContainerEvent containerExitedEventID 0
             (docker_entry\<lparr>State := ContainerStateRemoving\<rparr>)])
   \<and> emitted containerExitedEventID
        [enqueueContainerEvent containerExitedEventID (0::nat)
           (docker_entry\<lparr>State := ContainerStateRemoving\<rparr>)] = 1"
proof -
  have run: "Update ContainerRuntimeDocker (0::nat) [''State'' \<mapsto> GState ContainerStateRemoving]
       docker_entry =
     Inr (docker_entry\<lparr>State := ContainerStateRemoving\<rparr>,
          [enqueueContainerEvent containerExitedEventID 0
             (docker_entry\<lparr>State := ContainerStateRemoving\<rparr>)])"
    by (simp add: Update_def update_fields_def docker_entry_def newContainerInfo_def
          ContainerState_defs ContainerRuntimeDocker_def ContainerRuntimeUnknown_def)
  have "State docker_entry < ContainerStateRestarting
      \<and> State (docker_entry\<lparr>State := ContainerStateRemoving\<rparr>) = ContainerStateRemoving"
    by (simp add: docker_entry_def ContainerState_defs)
  with Update_exited_threshold [OF run] run show ?thesis by blast
qed






section \<open>Verification: deprecated file filter fields\<close>

lemma LogicalAnd_nil [simp]: "LogicalAnd ExprNil e = e" "LogicalAnd e ExprNil = e"
  by (simp_all add: LogicalAnd_def newBinaryExpr_def)


text \<open>
  C10. After \<open>rewriteFileEventFilter\<close> the four deprecated fields are nil and the filter
  expression is the old one with the mode test, the flags test and the filename test
  ANDed in front of it, each only when its field was set. The filename test is the
  equality on \<open>Filename\<close> when that is set, and the LIKE on \<open>FilenamePattern\<close> only when
  \<open>Filename\<close> is not: with both set the pattern has no effect on the result.
\<close>

theorem rewriteFileEventFilter_folds:
  "Filename (rewriteFileEventFilter fef) = None
   \<and> FilenamePattern (rewriteFileEventFilter fef) = None
   \<and> OpenFlagsMask (rewriteFileEventFilter fef) = None
   \<and> CreateModeMask (rewriteFileEventFilter fef) = None
   \<and> fef_Type (rewriteFileEventFilter fef) = fef_Type fef
   \<and> fef_FilterExpression (rewriteFileEventFilter fef) =
       LogicalAnd (mode_test fef)
         (LogicalAnd (flags_test fef)
            (LogicalAnd (filename_test fef) (fef_FilterExpression fef)))
   \<and> filename_test (fef\<lparr>Filename := Some name, FilenamePattern := Some pat\<rparr>) =
       Equal (Identifier ''filename'') (Value (L_String name))
   \<and> rewriteFileEventFilter (fef\<lparr>Filename := Some name, FilenamePattern := Some pat\<rparr>) =
       rewriteFileEventFilter (fef\<lparr>Filename := Some name, FilenamePattern := None\<rparr>)"
  by (simp add: rewriteFileEventFilter_def Let_def mode_test_def flags_test_def
        filename_test_def split: option.splits)


section \<open>Verification: the id gate of syscall filters\<close>








section \<open>Verification: the dummy syscall tracepoint\<close>








lemma dummy_sys_enter_kind [simp]:
  "is_dummy (dummy_sys_enter g)" "\<not> is_unregister (dummy_sys_enter g)"
  "\<not> is_enter_kprobe (dummy_sys_enter g)"
  by (simp_all add: dummy_sys_enter_def)


lemma register_dummy_count:
  assumes "3 \<le> KernelVersion_major env"
  shows "(dummy_sys_enter 0, Some eid) \<in> set (drop (length (trace st)) (trace (register_dummy env groupID st)))
           \<Longrightarrow> dummySyscallEventCount (register_dummy env groupID st) = 1
             \<and> dummySyscallEventID (register_dummy env groupID st) = eid"
  using assms
  by (auto simp: register_dummy_def call_monitor_def Let_def split: option.splits if_splits)












section \<open>Verification: promotion in the container filter\<close>








section \<open>Verification: decoders on a sample that does not fit\<close>

lemma returned_Some [simp]: "returned (Some v) = Returned v None"
  and returned_None [simp]: "returned None = Panicked"
  by (simp_all add: returned_def)

lemma not_reports_returned [simp]: "\<not> reports_error (returned r)"
  by (cases r) simp_all

lemma assert_has_kind:
  "(assert_string v = None) = (\<not> has_kind K_String v)"
  "(assert_int32 v = None) = (\<not> has_kind K_Int32 v)"
  "(assert_uint32 v = None) = (\<not> has_kind K_UInt32 v)"
  "(assert_int64 v = None) = (\<not> has_kind K_Int64 v)"
  "(assert_uint64 v = None) = (\<not> has_kind K_UInt64 v)"
  "(assert_bool v = None) = (\<not> has_kind K_Bool v)"
proof -
  show "(assert_string v = None) = (\<not> has_kind K_String v)"
  proof (cases v)
    case (Some x) then show ?thesis by (cases x) simp_all
  qed simp
  show "(assert_int32 v = None) = (\<not> has_kind K_Int32 v)"
  proof (cases v)
    case (Some x) then show ?thesis by (cases x) simp_all
  qed simp
  show "(assert_uint32 v = None) = (\<not> has_kind K_UInt32 v)"
  proof (cases v)
    case (Some x) then show ?thesis by (cases x) simp_all
  qed simp
  show "(assert_int64 v = None) = (\<not> has_kind K_Int64 v)"
  proof (cases v)
    case (Some x) then show ?thesis by (cases x) simp_all
  qed simp
  show "(assert_uint64 v = None) = (\<not> has_kind K_UInt64 v)"
  proof (cases v)
    case (Some x) then show ?thesis by (cases x) simp_all
  qed simp
  show "(assert_bool v = None) = (\<not> has_kind K_Bool v)"
  proof (cases v)
    case (Some x) then show ?thesis by (cases x) simp_all
  qed simp
qed

lemma decodeSysExit_panics:
  "(decodeSysExit nefs smp data = Panicked) = (\<not> schema_ok sys_exit_schema data)"
  using assert_has_kind(4) [of "data ''id''"] assert_has_kind(4) [of "data ''ret''"]
  by (cases "assert_int64 (data ''id'')"; cases "assert_int64 (data ''ret'')")
     (simp_all add: decodeSysExit_def schema_ok_def sys_exit_schema_def)

lemma decodeDoSysOpen_panics:
  "(decodeDoSysOpen nefs smp data = Panicked) = (\<not> schema_ok do_sys_open_schema data)"
  using assert_has_kind(1) [of "data ''filename''"] assert_has_kind(2) [of "data ''flags''"]
    assert_has_kind(2) [of "data ''mode''"]
  by (cases "assert_string (data ''filename'')"; cases "assert_int32 (data ''flags'')";
      cases "assert_int32 (data ''mode'')")
     (simp_all add: decodeDoSysOpen_def schema_ok_def do_sys_open_schema_def)

lemma returned_Panicked: "(returned r = Panicked) = (r = None)"
  by (cases r) simp_all

lemma decodeSyscallTraceEnter_panics:
  "(decodeSyscallTraceEnter nefs smp data = Panicked) = (\<not> schema_ok syscall_enter_schema data)"
  by (simp add: decodeSyscallTraceEnter_def returned_Panicked bind_eq_None_conv Let_def
        schema_ok_def syscall_enter_schema_def assert_has_kind)

lemma newContainerEvent_panics:
  "(newContainerEvent nefs smp data t = Panicked) = (\<not> schema_ok container_schema data)"
  by (simp add: newContainerEvent_def returned_Panicked bind_eq_None_conv Let_def
        schema_ok_def container_schema_def assert_has_kind)


text \<open>
  C9, as the claim states it, fails: on a sys_exit sample without its \<open>ret\<close> field
  \<open>decodeSysExit\<close> does not return an error for the sample, it panics.
\<close>

theorem decoder_mismatch_counterexample:
  "\<not> schema_ok sys_exit_schema exit_sample_without_ret
 \<and> decodeSysExit blank_event () exit_sample_without_ret = Panicked
 \<and> \<not> reports_error (decodeSysExit blank_event () exit_sample_without_ret)"
  by (simp add: decodeSysExit_def schema_ok_def sys_exit_schema_def
        exit_sample_without_ret_def)

text \<open>
  C9, amended. Each of the four decoders panics exactly on the samples that lack one of
  the fields it expects or carry it with another type, and returns an event with the nil
  error on every other sample; none of them ever returns an error.
\<close>

theorem decoders_panic_on_mismatch:
  "(decodeSyscallTraceEnter nefs smp data = Panicked) = (\<not> schema_ok syscall_enter_schema data)
 \<and> (decodeSysExit nefs smp data = Panicked) = (\<not> schema_ok sys_exit_schema data)
 \<and> (decodeDoSysOpen nefs smp data = Panicked) = (\<not> schema_ok do_sys_open_schema data)
 \<and> (newContainerEvent nefs smp data t = Panicked) = (\<not> schema_ok container_schema data)
 \<and> \<not> reports_error (decodeSyscallTraceEnter nefs smp data)
 \<and> \<not> reports_error (decodeSysExit nefs smp data)
 \<and> \<not> reports_error (decodeDoSysOpen nefs smp data)
 \<and> \<not> reports_error (newContainerEvent nefs smp data t)"
  by (simp add: decodeSyscallTraceEnter_panics decodeSysExit_panics decodeDoSysOpen_panics
        newContainerEvent_panics)
     (simp add: decodeSyscallTraceEnter_def decodeSysExit_def decodeDoSysOpen_def
        newContainerEvent_def)

theorem decoders_panic_on_mismatch_witness:
  "decodeSysExit blank_event () exit_sample_without_ret = Panicked
 \<and> decodeSysExit blank_event () exit_sample \<noteq> Panicked"
proof -
  have "\<not> schema_ok sys_exit_schema exit_sample_without_ret"
    and "schema_ok sys_exit_schema exit_sample"
    by (simp_all add: schema_ok_def sys_exit_schema_def exit_sample_without_ret_def
          exit_sample_def)
  with decoders_panic_on_mismatch [of blank_event "()" exit_sample_without_ret]
    decoders_panic_on_mismatch [of blank_event "()" exit_sample]
  show ?thesis by blast
qed


end
